theory Spec2Isabelle
  imports Complex_Main
begin

section \<open>Data model\<close>

text \<open>
  The script \<^verbatim>\<open>autolysis.py\<close> drives pandas, matplotlib, seaborn and the file
  system. The embedding keeps the control flow of the script as it is written and makes
  every effect explicit: a \<^emph>\<open>world\<close> (console output, directories, files, open
  figures, and the trace of library calls made so far) is threaded through each function,
  and every library call may either return or raise, as decided by an environment that
  sees the whole history of calls.
\<close>

subsection \<open>Tables\<close>

text \<open>
  A DataFrame: the number of rows of its index and its columns, each with a name, a
  dtype and its cells. The dtypes are those \<^verbatim>\<open>read_csv\<close> infers.
\<close>

datatype dtype = Float64 | Int64 | UInt64 | Bool | Object

datatype cell = Missing | Number real | Value string

datatype column = Column (col_name: string) (col_dtype: dtype) (col_cells: "cell list")

datatype dataset = DataFrame (nrows: nat) (columns: "column list")

text \<open>\<^verbatim>\<open>data.shape\<close>.\<close>

definition shape :: "dataset \<Rightarrow> nat \<times> nat" where
  "shape data = (nrows data, length (columns data))"

text \<open>\<^verbatim>\<open>numeric_data.empty\<close>: true when either axis has length zero.\<close>

definition is_empty :: "dataset \<Rightarrow> bool" where
  "is_empty data = (nrows data = 0 \<or> columns data = [])"

text \<open>\<^verbatim>\<open>data.select_dtypes(include=['float64', 'int64'])\<close>.\<close>

definition select_dtypes :: "dataset \<Rightarrow> dataset" where
  "select_dtypes data =
     DataFrame (nrows data)
       (filter (\<lambda>c. col_dtype c = Float64 \<or> col_dtype c = Int64) (columns data))"

text \<open>
  The value of \<^verbatim>\<open>data.isnull().sum()\<close>: a series with one entry per column, in
  column order, holding the number of missing cells of that column.
\<close>

definition isnull_sum :: "dataset \<Rightarrow> (string \<times> nat) list" where
  "isnull_sum data =
     map (\<lambda>c. (col_name c, length (filter (\<lambda>x. x = Missing) (col_cells c)))) (columns data)"

text \<open>
  The results of \<^verbatim>\<open>describe()\<close> and \<^verbatim>\<open>corr()\<close> are passed around as the table they
  were computed from.
\<close>

datatype stats = DescribeOf dataset

datatype matrix = CorrOf dataset






subsection \<open>Python values rendered as text\<close>

fun dec :: "nat \<Rightarrow> string" where
  "dec n = (if n < 10 then [''0123456789'' ! n]
            else dec (n div 10) @ [''0123456789'' ! (n mod 10)])"

declare dec.simps [simp del]

text \<open>The text of a pair of integers inside an f-string, as in \<^verbatim>\<open>f"{data.shape}"\<close>.\<close>

definition tuple_repr :: "nat \<times> nat \<Rightarrow> string" where
  "tuple_repr p = ''('' @ dec (fst p) @ '', '' @ dec (snd p) @ '')''"

text \<open>\<^verbatim>\<open>os.path.join(a, b)\<close> (the POSIX rule).\<close>

definition path_join :: "string \<Rightarrow> string \<Rightarrow> string" where
  "path_join a b =
     (if b \<noteq> [] \<and> hd b = CHR ''/'' then b
      else if a = [] \<or> last a = CHR ''/'' then a @ b
      else a @ ''/'' @ b)"

subsection \<open>Exceptions\<close>

text \<open>
  The exception classes the script names, and one constructor for every other subclass of
  \<^verbatim>\<open>Exception\<close>. \<^verbatim>\<open>SystemExit\<close>, raised by \<^verbatim>\<open>exit()\<close>, is not a subclass of
  \<^verbatim>\<open>Exception\<close>: an \<^verbatim>\<open>except Exception\<close> clause lets it through.
\<close>

datatype exc_kind =
  UnicodeDecodeError | FileNotFoundError | EmptyDataError | FileExistsError | OtherException

datatype exc = Exc (kind: exc_kind) (message: string)

datatype abort = Raised exc | SystemExit

subsection \<open>Library calls and the world\<close>

datatype encoding = UTF8 | ISO_8859_1

datatype call =
    Chdir string
  | Makedirs string bool
  | ReadCsv string encoding
  | Info dataset
  | Describe dataset
  | Isnull dataset
  | SumNulls dataset
  | StatsToString stats
  | SeriesToString "(string \<times> nat) list"
  | SnsSet
  | SelectDtypes dataset
  | PltFigure
  | Corr dataset
  | SnsHeatmap matrix
  | Savefig string
  | PltClose
  | SnsPairplot dataset
  | OpenW string
  | FWrite string string
  | FClose string

datatype drawing = Heatmap matrix | Pairplot dataset

datatype content = Text string | Image "drawing list"

type_synonym history = "(call \<times> exc option) list"

record world =
  stdout :: "string list"
  dirs :: "string set"
  files :: "string \<rightharpoonup> content"
  figs :: "drawing list list"
  trace :: history

text \<open>
  What the script cannot decide itself: the credential in the process environment, the
  directory of the script, which library calls raise (given the calls made so far), the
  table a successful \<^verbatim>\<open>read_csv\<close> returns, and the text pandas renders.
\<close>

record env =
  aiproxy_token :: "string option"
  script_dir :: string
  raises :: "history \<Rightarrow> call \<Rightarrow> exc option"
  csv_table :: "string \<Rightarrow> encoding \<Rightarrow> dataset"
  info_text :: "dataset \<Rightarrow> string"
  stats_str :: "stats \<Rightarrow> string"
  stats_to_string :: "stats \<Rightarrow> string"
  series_str :: "(string \<times> nat) list \<Rightarrow> string"
  series_to_string :: "(string \<times> nat) list \<Rightarrow> string"

type_synonym 'a prog = "world \<Rightarrow> (abort + 'a) \<times> world"

definition ret :: "'a \<Rightarrow> 'a prog" where
  "ret x w = (Inr x, w)"

definition seq :: "'a prog \<Rightarrow> ('a \<Rightarrow> 'b prog) \<Rightarrow> 'b prog" where
  "seq p f w = (case p w of (Inl a, w1) \<Rightarrow> (Inl a, w1) | (Inr x, w1) \<Rightarrow> f x w1)"

text \<open>\<^verbatim>\<open>print(s)\<close>.\<close>

definition say :: "string \<Rightarrow> unit prog" where
  "say s w = (Inr (), w\<lparr>stdout := stdout w @ [s]\<rparr>)"

text \<open>\<^verbatim>\<open>exit()\<close>.\<close>

definition exit_py :: "'a prog" where
  "exit_py w = (Inl SystemExit, w)"

text \<open>All ancestors of a path and the path itself, as \<^verbatim>\<open>os.makedirs\<close> creates them.\<close>

definition path_prefixes :: "string \<Rightarrow> string list" where
  "path_prefixes p =
     map (\<lambda>i. take i p) (filter (\<lambda>i. 0 < i \<and> p ! i = CHR ''/'') [0..<length p]) @ [p]"

text \<open>
  The directory a path lies in: what precedes its last separator (empty when the path has
  none, and the file lies in the working directory).
\<close>

fun parent :: "string \<Rightarrow> string" where
  "parent [] = []"
| "parent (c # p) = (if CHR ''/'' \<in> set p then c # parent p else [])"

declare parent.simps [simp del]

text \<open>
  The errors a call raises because of the directories and files of the world:
  \<^verbatim>\<open>os.makedirs\<close> raises \<^verbatim>\<open>FileExistsError\<close> at an existing directory unless
  \<^verbatim>\<open>exist_ok\<close> is set, and at an existing file in either case; \<^verbatim>\<open>savefig\<close> and
  \<^verbatim>\<open>open(path, "w")\<close> raise \<^verbatim>\<open>FileNotFoundError\<close> when the directory of the path does
  not exist. Every other error of a call (permissions, a full disk, a path component that
  is a regular file, an error inside the library) is left to the environment.
\<close>

fun state_error :: "call \<Rightarrow> world \<Rightarrow> exc option" where
  "state_error (Makedirs p exist_ok) w =
     (if p \<in> dom (files w) then Some (Exc FileExistsError p)
      else if p \<in> dirs w \<and> \<not> exist_ok then Some (Exc FileExistsError p)
      else None)"
| "state_error (Savefig p) w =
     (if parent p \<noteq> [] \<and> parent p \<notin> dirs w then Some (Exc FileNotFoundError p) else None)"
| "state_error (OpenW p) w =
     (if parent p \<noteq> [] \<and> parent p \<notin> dirs w then Some (Exc FileNotFoundError p) else None)"
| "state_error _ w = None"

text \<open>The current figure is the last one opened.\<close>

definition draw :: "drawing \<Rightarrow> drawing list list \<Rightarrow> drawing list list" where
  "draw d fs = (if fs = [] then [[d]] else butlast fs @ [last fs @ [d]])"

definition current_figure :: "drawing list list \<Rightarrow> drawing list" where
  "current_figure fs = (if fs = [] then [] else last fs)"

definition appended :: "content option \<Rightarrow> string \<Rightarrow> content" where
  "appended old s = (case old of Some (Text t) \<Rightarrow> Text (t @ s) | _ \<Rightarrow> Text s)"

text \<open>What a call that returns does to the world.\<close>

fun effect :: "env \<Rightarrow> call \<Rightarrow> world \<Rightarrow> world" where
  "effect env (Makedirs p exist_ok) w = w\<lparr>dirs := dirs w \<union> set (path_prefixes p)\<rparr>"
| "effect env (Info data) w = w\<lparr>stdout := stdout w @ [info_text env data]\<rparr>"
| "effect env PltFigure w = w\<lparr>figs := figs w @ [[]]\<rparr>"
| "effect env (SnsHeatmap m) w = w\<lparr>figs := draw (Heatmap m) (figs w)\<rparr>"
| "effect env (SnsPairplot data) w = w\<lparr>figs := figs w @ [[Pairplot data]]\<rparr>"
| "effect env (Savefig p) w =
     w\<lparr>files := (files w)(p \<mapsto> Image (current_figure (figs w))),
       figs := (if figs w = [] then [[]] else figs w)\<rparr>"
| "effect env PltClose w = w\<lparr>figs := butlast (figs w)\<rparr>"
| "effect env (OpenW p) w = w\<lparr>files := (files w)(p \<mapsto> Text [])\<rparr>"
| "effect env (FWrite p s) w = w\<lparr>files := (files w)(p \<mapsto> appended (files w p) s)\<rparr>"
| "effect env _ w = w"

text \<open>
  One library call: it raises when the environment says so or when the state of the file
  system makes it; otherwise it takes effect. Either way it is recorded in the trace.
\<close>

definition outcome :: "env \<Rightarrow> call \<Rightarrow> world \<Rightarrow> exc option" where
  "outcome env c w =
     (case raises env (trace w) c of Some e \<Rightarrow> Some e | None \<Rightarrow> state_error c w)"

definition lib :: "env \<Rightarrow> call \<Rightarrow> unit prog" where
  "lib env c w =
     (case outcome env c w of
        Some e \<Rightarrow> (Inl (Raised e), w\<lparr>trace := trace w @ [(c, Some e)]\<rparr>)
      | None \<Rightarrow> (Inr (), effect env c (w\<lparr>trace := trace w @ [(c, None)]\<rparr>)))"

text \<open>\<^verbatim>\<open>try: body except Exception as e: handler\<close>.\<close>

definition try_except :: "'a prog \<Rightarrow> (exc \<Rightarrow> 'a prog) \<Rightarrow> 'a prog" where
  "try_except body handler w =
     (case body w of (Inl (Raised e), w1) \<Rightarrow> handler e w1 | r \<Rightarrow> r)"

text \<open>
  \<^verbatim>\<open>with open(path, "w") as f: body\<close>: the file is closed when the body is left,
  normally or by an exception; an exception of the close replaces the body's.
\<close>

definition with_open :: "env \<Rightarrow> string \<Rightarrow> unit prog \<Rightarrow> unit prog" where
  "with_open env path body =
     seq (lib env (OpenW path)) (\<lambda>_ w.
       case body w of (r, w1) \<Rightarrow>
         (case lib env (FClose path) w1 of
            (Inl a, w2) \<Rightarrow> (Inl a, w2)
          | (Inr _, w2) \<Rightarrow> (r, w2)))"

section \<open>The script\<close>

subsection \<open>\<^verbatim>\<open>load_data\<close>\<close>

definition read_csv :: "env \<Rightarrow> string \<Rightarrow> encoding \<Rightarrow> dataset prog" where
  "read_csv env file_path enc =
     seq (lib env (ReadCsv file_path enc)) (\<lambda>_. ret (csv_table env file_path enc))"

definition load_data :: "env \<Rightarrow> string \<Rightarrow> dataset prog" where
  "load_data env file_path w =
     (case read_csv env file_path UTF8 w of
        (Inr data, w1) \<Rightarrow>
          seq (say (''Data loaded successfully from '' @ file_path)) (\<lambda>_. ret data) w1
      | (Inl SystemExit, w1) \<Rightarrow> (Inl SystemExit, w1)
      | (Inl (Raised e), w1) \<Rightarrow>
          (case kind e of
             UnicodeDecodeError \<Rightarrow>
               seq (say ''Error: File encoding not supported. Trying 'ISO-8859-1'.'') (\<lambda>_ w2.
                 case read_csv env file_path ISO_8859_1 w2 of
                   (Inr data, w3) \<Rightarrow>
                     seq (say (''Data loaded successfully from '' @ file_path
                               @ '' with 'ISO-8859-1' encoding.'')) (\<lambda>_. ret data) w3
                 | (Inl SystemExit, w3) \<Rightarrow> (Inl SystemExit, w3)
                 | (Inl (Raised e2), w3) \<Rightarrow>
                     seq (say (''Error loading file: '' @ message e2)) (\<lambda>_. exit_py) w3) w1
           | FileNotFoundError \<Rightarrow> seq (say ''Error: File not found.'') (\<lambda>_. exit_py) w1
           | EmptyDataError \<Rightarrow> seq (say ''Error: File is empty.'') (\<lambda>_. exit_py) w1
           | _ \<Rightarrow> seq (say (''Error loading file: '' @ message e)) (\<lambda>_. exit_py) w1))"

subsection \<open>\<^verbatim>\<open>analyze_data\<close>\<close>

text \<open>
  \<^verbatim>\<open>data.info()\<close> prints the overview itself and returns \<^verbatim>\<open>None\<close>, which
  \<^verbatim>\<open>print\<close> then prints. No statement of the function is inside a \<^verbatim>\<open>try\<close>.
\<close>

definition analyze_data :: "env \<Rightarrow> dataset \<Rightarrow> unit prog" where
  "analyze_data env data =
     seq (say ''\<newline>--- Dataset Overview ---\<newline>'') (\<lambda>_.
     seq (lib env (Info data)) (\<lambda>_.
     seq (say ''None'') (\<lambda>_.
     seq (say ''\<newline>--- Summary Statistics ---\<newline>'') (\<lambda>_.
     seq (lib env (Describe data)) (\<lambda>_.
     seq (say (stats_str env (DescribeOf data))) (\<lambda>_.
     seq (say ''\<newline>--- Missing Values ---\<newline>'') (\<lambda>_.
     seq (lib env (Isnull data)) (\<lambda>_.
     seq (lib env (SumNulls data)) (\<lambda>_.
     say (series_str env (isnull_sum data)))))))))))"

subsection \<open>\<^verbatim>\<open>visualize_data\<close>\<close>

definition heatmap_block :: "env \<Rightarrow> dataset \<Rightarrow> string \<Rightarrow> unit prog" where
  "heatmap_block env numeric_data output_dir =
     (if \<not> is_empty numeric_data then
        seq (lib env PltFigure) (\<lambda>_.
        seq (lib env (Corr numeric_data)) (\<lambda>_.
        seq (lib env (SnsHeatmap (CorrOf numeric_data))) (\<lambda>_.
        let heatmap_path = path_join output_dir ''correlation_heatmap.png'' in
        seq (lib env (Savefig heatmap_path)) (\<lambda>_.
        seq (say (''Correlation heatmap saved to '' @ heatmap_path)) (\<lambda>_.
        lib env PltClose)))))
      else ret ())"

definition pairplot_block :: "env \<Rightarrow> dataset \<Rightarrow> string \<Rightarrow> unit prog" where
  "pairplot_block env numeric_data output_dir =
     (if \<not> is_empty numeric_data then
        let pairplot_path = path_join output_dir ''pairplot.png'' in
        seq (lib env (SnsPairplot numeric_data)) (\<lambda>_.
        seq (lib env (Savefig pairplot_path)) (\<lambda>_.
        seq (say (''Pairplot saved to '' @ pairplot_path)) (\<lambda>_.
        lib env PltClose)))
      else ret ())"

text \<open>The statements of the \<^verbatim>\<open>try\<close> block.\<close>

definition visualize_body :: "env \<Rightarrow> dataset \<Rightarrow> string \<Rightarrow> unit prog" where
  "visualize_body env data output_dir =
     seq (lib env SnsSet) (\<lambda>_.
     seq (lib env (SelectDtypes data)) (\<lambda>_.
     let numeric_data = select_dtypes data in
     seq (heatmap_block env numeric_data output_dir) (\<lambda>_.
     pairplot_block env numeric_data output_dir)))"

definition visualize_data :: "env \<Rightarrow> dataset \<Rightarrow> string \<Rightarrow> unit prog" where
  "visualize_data env data output_dir =
     try_except (visualize_body env data output_dir)
       (\<lambda>e. say (''Error creating visualizations: '' @ message e))"

subsection \<open>\<^verbatim>\<open>generate_markdown_report\<close>\<close>

definition report_writes :: "env \<Rightarrow> dataset \<Rightarrow> string \<Rightarrow> unit prog" where
  "report_writes env data report_path =
     seq (lib env (FWrite report_path ''# Data Analysis Report\<newline>\<newline>'')) (\<lambda>_.
     seq (lib env (FWrite report_path ''## Dataset Overview\<newline>\<newline>'')) (\<lambda>_.
     seq (lib env (FWrite report_path
            (''Shape of the dataset: '' @ tuple_repr (shape data) @ ''\<newline>\<newline>''))) (\<lambda>_.
     seq (lib env (FWrite report_path ''### Missing Values\<newline>\<newline>'')) (\<lambda>_.
     seq (lib env (Isnull data)) (\<lambda>_.
     seq (lib env (SumNulls data)) (\<lambda>_.
     seq (lib env (SeriesToString (isnull_sum data))) (\<lambda>_.
     seq (lib env (FWrite report_path (series_to_string env (isnull_sum data)))) (\<lambda>_.
     seq (lib env (FWrite report_path ''\<newline>\<newline>'')) (\<lambda>_.
     seq (lib env (FWrite report_path ''### Summary Statistics\<newline>\<newline>'')) (\<lambda>_.
     seq (lib env (Describe data)) (\<lambda>_.
     seq (lib env (StatsToString (DescribeOf data))) (\<lambda>_.
     seq (lib env (FWrite report_path (stats_to_string env (DescribeOf data)))) (\<lambda>_.
     lib env (FWrite report_path ''\<newline>''))))))))))))))"

text \<open>The statements of the \<^verbatim>\<open>try\<close> block.\<close>

definition report_body :: "env \<Rightarrow> dataset \<Rightarrow> string \<Rightarrow> unit prog" where
  "report_body env data output_dir =
     (let report_path = path_join output_dir ''README.md'' in
      seq (with_open env report_path (report_writes env data report_path)) (\<lambda>_.
      say (''Markdown report saved to '' @ report_path)))"

definition generate_markdown_report :: "env \<Rightarrow> dataset \<Rightarrow> string \<Rightarrow> unit prog" where
  "generate_markdown_report env data output_dir =
     try_except (report_body env data output_dir)
       (\<lambda>e. say (''Error generating Markdown report: '' @ message e))"

subsection \<open>\<^verbatim>\<open>main\<close>\<close>

text \<open>The body of the loop over \<^verbatim>\<open>datasets.items()\<close>.\<close>

definition process_dataset :: "env \<Rightarrow> string \<Rightarrow> string \<Rightarrow> string \<Rightarrow> unit prog" where
  "process_dataset env output_dir name file_path =
     seq (say (''\<newline>Processing dataset: '' @ name)) (\<lambda>_.
     seq (load_data env file_path) (\<lambda>data.
     let dataset_dir = path_join output_dir name in
     seq (lib env (Makedirs dataset_dir True)) (\<lambda>_.
     seq (analyze_data env data) (\<lambda>_.
     seq (visualize_data env data dataset_dir) (\<lambda>_.
     generate_markdown_report env data dataset_dir)))))"

text \<open>The loop: the entries in the order of the dictionary, left by the first abort.\<close>

fun process_datasets :: "env \<Rightarrow> string \<Rightarrow> (string \<times> string) list \<Rightarrow> unit prog" where
  "process_datasets env output_dir [] w = (Inr (), w)"
| "process_datasets env output_dir ((name, file_path) # rest) w =
     (case process_dataset env output_dir name file_path w of
        (Inl a, w1) \<Rightarrow> (Inl a, w1)
      | (Inr _, w1) \<Rightarrow> process_datasets env output_dir rest w1)"

definition datasets :: "(string \<times> string) list" where
  "datasets =
     [(''goodreads'', ''C:/Users/Rohit/goodreads.csv''),
      (''happiness'', ''C:/Users/Rohit/happiness.csv''),
      (''media'', ''C:/Users/Rohit/media.csv'')]"

definition main :: "env \<Rightarrow> unit prog" where
  "main env =
     seq (lib env (Chdir (script_dir env))) (\<lambda>_.
     if aiproxy_token env = None \<or> aiproxy_token env = Some [] then
       seq (say ''Error: AIPROXY_TOKEN environment variable not set.'') (\<lambda>_. exit_py)
     else
       seq (lib env (Makedirs ''results'' True)) (\<lambda>_.
       process_datasets env ''results'' datasets))"

section \<open>Observing a run\<close>

text \<open>The library calls made between two worlds of one run, with their outcomes.\<close>

definition calls_since :: "world \<Rightarrow> world \<Rightarrow> history" where
  "calls_since w w' = drop (length (trace w)) (trace w')"

text \<open>No call of the history raised.\<close>

definition clean :: "history \<Rightarrow> bool" where
  "clean t = list_all (\<lambda>x. snd x = None) t"

definition is_decode_error :: "exc option \<Rightarrow> bool" where
  "is_decode_error r = (case r of Some e \<Rightarrow> kind e = UnicodeDecodeError | None \<Rightarrow> False)"

text \<open>
  A program is \<open>tidy\<close> when it only appends to the trace, never exits the process, and
  returns normally exactly when none of its calls raised; when it does not return, the
  exception it ends with is one a call of the trace raised. The blocks of the script that
  contain no \<^verbatim>\<open>exit()\<close> and no \<^verbatim>\<open>try\<close> are tidy.
\<close>

definition tidy :: "'a prog \<Rightarrow> bool" where
  "tidy p = (\<forall>w. \<exists>t. trace (snd (p w)) = trace w @ t \<and>
     (case fst (p w) of
        Inr x \<Rightarrow> clean t
      | Inl a \<Rightarrow> (\<exists>c e. a = Raised e \<and> (c, Some e) \<in> set t)))"

text \<open>
  A postcondition of one run of a program: \<open>Q\<close> holds of the result and the final world.
\<close>

definition post :: "'a prog \<Rightarrow> world \<Rightarrow> ((abort + 'a) \<Rightarrow> world \<Rightarrow> bool) \<Rightarrow> bool" where
  "post p w Q = Q (fst (p w)) (snd (p w))"

text \<open>
  NumericSubset in the words of the specification: the projection onto the columns of
  floating-point or integer type. (The script selects \<^verbatim>\<open>float64\<close> and \<^verbatim>\<open>int64\<close> only,
  see \<^const>\<open>select_dtypes\<close>.)
\<close>

definition numeric_subset :: "dataset \<Rightarrow> dataset" where
  "numeric_subset data =
     DataFrame (nrows data)
       (filter (\<lambda>c. col_dtype c = Float64 \<or> col_dtype c = Int64 \<or> col_dtype c = UInt64)
          (columns data))"




text \<open>A \<^verbatim>\<open>savefig\<close> that returned.\<close>

definition is_saved :: "call \<times> exc option \<Rightarrow> bool" where
  "is_saved x = (case x of (Savefig p, None) \<Rightarrow> True | _ \<Rightarrow> False)"

text \<open>Every \<^verbatim>\<open>savefig\<close> that returned is followed at once by a call of \<^verbatim>\<open>plt.close()\<close>.\<close>

fun closes_after_save :: "history \<Rightarrow> bool" where
  "closes_after_save [] = True"
| "closes_after_save (x # t) =
     ((if is_saved x then t \<noteq> [] \<and> fst (hd t) = PltClose else True) \<and> closes_after_save t)"

section \<open>Concrete runs\<close>

text \<open>A table with two numeric columns and a text column, one cell missing.\<close>

definition sample_data :: dataset where
  "sample_data =
     DataFrame 2
       [Column ''id'' Int64 [Number 1, Number 2],
        Column ''score'' Float64 [Number (1 / 2), Missing],
        Column ''name'' Object [Value ''a'', Value ''b'']]"

definition count_lines :: "(string \<times> nat) list \<Rightarrow> string" where
  "count_lines s = concat (map (\<lambda>(n, k). n @ '' '' @ dec k @ '';'') s)"

text \<open>An environment in which the credential is set and no library call raises.\<close>

definition quiet_env :: env where
  "quiet_env =
     \<lparr>aiproxy_token = Some ''token'', script_dir = ''/app'',
      raises = (\<lambda>h c. None), csv_table = (\<lambda>p enc. sample_data),
      info_text = (\<lambda>d. ''info''), stats_str = (\<lambda>s. ''stats''),
      stats_to_string = (\<lambda>s. ''stats''), series_str = count_lines,
      series_to_string = count_lines\<rparr>"

text \<open>Every file fails to decode as UTF-8.\<close>

definition latin1_env :: env where
  "latin1_env =
     quiet_env\<lparr>raises := (\<lambda>h c. case c of
        ReadCsv p UTF8 \<Rightarrow> Some (Exc UnicodeDecodeError ''invalid start byte'') | _ \<Rightarrow> None)\<rparr>"

text \<open>The second file of the batch does not exist.\<close>

definition missing_env :: env where
  "missing_env =
     quiet_env\<lparr>raises := (\<lambda>h c. case c of
        ReadCsv p enc \<Rightarrow>
          (if p = ''C:/Users/Rohit/happiness.csv''
           then Some (Exc FileNotFoundError ''No such file or directory'') else None)
      | _ \<Rightarrow> None)\<rparr>"

definition w0 :: world where
  "w0 = \<lparr>stdout = [], dirs = {}, files = Map.empty, figs = [], trace = []\<rparr>"




text \<open>A table of text only.\<close>

definition text_data :: dataset where
  "text_data = DataFrame 2 [Column ''title'' Object [Value ''a'', Value ''b'']]"

text \<open>A world in which the output directory of the last entry exists.\<close>

definition media_world :: world where
  "media_world = w0\<lparr>dirs := {''results'', ''results/media''}\<rparr>"

text \<open>The same, with an earlier table's heatmap still open as the current figure.\<close>

definition stale_world :: world where
  "stale_world = media_world\<lparr>figs := [[Heatmap (CorrOf text_data)]]\<rparr>"

text \<open>The analyzer cannot read the table: \<^verbatim>\<open>data.info()\<close> raises.\<close>

definition info_env :: env where
  "info_env =
     quiet_env\<lparr>raises := (\<lambda>h c. case c of
        Info d \<Rightarrow> Some (Exc OtherException ''boom'') | _ \<Rightarrow> None)\<rparr>"


text \<open>Drawing the heatmap raises, and no report file can be opened.\<close>

definition faulty_env :: env where
  "faulty_env =
     quiet_env\<lparr>raises := (\<lambda>h c. case c of
        SnsHeatmap m \<Rightarrow> Some (Exc OtherException ''zero-size array'')
      | OpenW p \<Rightarrow> Some (Exc OtherException ''Permission denied'')
      | _ \<Rightarrow> None)\<rparr>"

text \<open>A world in which the directory of the first entry exists already.\<close>

definition rerun_world :: world where
  "rerun_world = w0\<lparr>dirs := {''results'', ''results/goodreads''}\<rparr>"

section \<open>Basic facts\<close>

lemma trace_effect [simp]: "trace (effect env c w) = trace w"
  by (cases c) simp_all

lemma raised_not_clean: "(c, Some e) \<in> set t \<Longrightarrow> \<not> clean t"
  by (force simp: clean_def list_all_iff)

lemma clean_append [simp]: "clean (t1 @ t2) \<longleftrightarrow> clean t1 \<and> clean t2"
  by (simp add: clean_def)

lemma tidy_ret [intro!, simp]: "tidy (ret x)"
  by (simp add: tidy_def ret_def clean_def)

lemma tidy_say [intro!, simp]: "tidy (say s)"
  by (simp add: tidy_def say_def clean_def)

lemma tidy_lib [intro!, simp]: "tidy (lib env c)"
  by (auto simp: tidy_def lib_def clean_def split: option.splits)

lemma tidyE:
  assumes "tidy p"
  obtains t where "trace (snd (p w)) = trace w @ t"
    and "\<And>x. fst (p w) = Inr x \<Longrightarrow> clean t"
    and "\<And>a. fst (p w) = Inl a \<Longrightarrow> \<exists>c e. a = Raised e \<and> (c, Some e) \<in> set t"
proof -
  obtain t where t: "trace (snd (p w)) = trace w @ t"
    "(case fst (p w) of Inr x \<Rightarrow> clean t
      | Inl a \<Rightarrow> (\<exists>c e. a = Raised e \<and> (c, Some e) \<in> set t))"
    using assms unfolding tidy_def by blast
  show thesis
  proof (rule that [of t])
    show "trace (snd (p w)) = trace w @ t" by (rule t(1))
    show "\<And>x. fst (p w) = Inr x \<Longrightarrow> clean t" using t(2) by simp
    show "\<And>a. fst (p w) = Inl a \<Longrightarrow> \<exists>c e. a = Raised e \<and> (c, Some e) \<in> set t"
      using t(2) by simp
  qed
qed

lemma tidyI:
  assumes "\<And>w. \<exists>t. trace (snd (p w)) = trace w @ t
     \<and> (\<forall>x. fst (p w) = Inr x \<longrightarrow> clean t)
     \<and> (\<forall>a. fst (p w) = Inl a \<longrightarrow> (\<exists>c e. a = Raised e \<and> (c, Some e) \<in> set t))"
  shows "tidy p"
  unfolding tidy_def
proof
  fix w
  obtain t where t: "trace (snd (p w)) = trace w @ t"
    "\<forall>x. fst (p w) = Inr x \<longrightarrow> clean t"
    "\<forall>a. fst (p w) = Inl a \<longrightarrow> (\<exists>c e. a = Raised e \<and> (c, Some e) \<in> set t)"
    using assms [of w] by blast
  show "\<exists>t. trace (snd (p w)) = trace w @ t \<and>
     (case fst (p w) of Inr x \<Rightarrow> clean t
      | Inl a \<Rightarrow> (\<exists>c e. a = Raised e \<and> (c, Some e) \<in> set t))"
    using t by (intro exI [of _ t]) (simp split: sum.splits)
qed

lemma tidy_seq [intro!]:
  assumes "tidy p" and "\<And>x. tidy (f x)"
  shows "tidy (seq p f)"
proof (rule tidyI)
  fix w
  obtain t1 where t1: "trace (snd (p w)) = trace w @ t1"
    "\<And>x. fst (p w) = Inr x \<Longrightarrow> clean t1"
    "\<And>a. fst (p w) = Inl a \<Longrightarrow> \<exists>c e. a = Raised e \<and> (c, Some e) \<in> set t1"
    using tidyE [OF assms(1), of w] by metis
  obtain r w1 where pw: "p w = (r, w1)" by (cases "p w")
  show "\<exists>t. trace (snd (seq p f w)) = trace w @ t
     \<and> (\<forall>x. fst (seq p f w) = Inr x \<longrightarrow> clean t)
     \<and> (\<forall>a. fst (seq p f w) = Inl a \<longrightarrow> (\<exists>c e. a = Raised e \<and> (c, Some e) \<in> set t))"
  proof (cases r)
    case (Inl a)
    then have "seq p f w = (Inl a, w1)" using pw by (simp add: seq_def)
    then show ?thesis using t1 pw Inl by (intro exI [of _ t1]) simp
  next
    case (Inr x)
    obtain t2 where t2: "trace (snd (f x w1)) = trace w1 @ t2"
      "\<And>y. fst (f x w1) = Inr y \<Longrightarrow> clean t2"
      "\<And>a. fst (f x w1) = Inl a \<Longrightarrow> \<exists>c e. a = Raised e \<and> (c, Some e) \<in> set t2"
      using tidyE [OF assms(2), of x w1] by metis
    have s: "seq p f w = f x w1" using pw Inr by (simp add: seq_def)
    have c1: "clean t1" using t1(2) pw Inr by simp
    have "trace (snd (seq p f w)) = trace w @ (t1 @ t2)"
      using s t1(1) t2(1) pw by simp
    moreover have "\<forall>y. fst (seq p f w) = Inr y \<longrightarrow> clean (t1 @ t2)"
      using s c1 t2(2) by simp
    moreover have "\<forall>a. fst (seq p f w) = Inl a \<longrightarrow>
        (\<exists>c e. a = Raised e \<and> (c, Some e) \<in> set (t1 @ t2))"
      using s t2(3) by fastforce
    ultimately show ?thesis by blast
  qed
qed

lemma tidy_with_open [intro!]:
  assumes "tidy body"
  shows "tidy (with_open env path body)"
proof -
  let ?q = "\<lambda>w. case body w of (r, w1) \<Rightarrow>
         (case lib env (FClose path) w1 of (Inl a, w2) \<Rightarrow> (Inl a, w2) | (Inr _, w2) \<Rightarrow> (r, w2))"
  have "tidy ?q"
  proof (rule tidyI)
    fix w
    obtain t1 where t1: "trace (snd (body w)) = trace w @ t1"
      "\<And>x. fst (body w) = Inr x \<Longrightarrow> clean t1"
      "\<And>a. fst (body w) = Inl a \<Longrightarrow> \<exists>c e. a = Raised e \<and> (c, Some e) \<in> set t1"
      using tidyE [OF assms, of w] by metis
    obtain r w1 where bw: "body w = (r, w1)" by (cases "body w")
    let ?o = "outcome env (FClose path) w1"
    let ?t = "t1 @ [(FClose path, ?o)]"
    show "\<exists>t. trace (snd (?q w)) = trace w @ t
       \<and> (\<forall>x. fst (?q w) = Inr x \<longrightarrow> clean t)
       \<and> (\<forall>a. fst (?q w) = Inl a \<longrightarrow> (\<exists>c e. a = Raised e \<and> (c, Some e) \<in> set t))"
    proof (cases ?o)
      case None
      have "trace (snd (?q w)) = trace w @ ?t"
        using t1(1) bw None by (simp add: lib_def)
      moreover have "\<forall>x. fst (?q w) = Inr x \<longrightarrow> clean ?t"
        using t1(2) bw None by (simp add: lib_def clean_def)
      moreover have "\<forall>a. fst (?q w) = Inl a \<longrightarrow> (\<exists>c e. a = Raised e \<and> (c, Some e) \<in> set ?t)"
        using t1(3) bw None by (fastforce simp: lib_def)
      ultimately show ?thesis by blast
    next
      case (Some e)
      have "trace (snd (?q w)) = trace w @ ?t"
        using t1(1) bw Some by (simp add: lib_def)
      moreover have "\<forall>x. fst (?q w) = Inr x \<longrightarrow> clean ?t"
        using bw Some by (simp add: lib_def)
      moreover have "\<forall>a. fst (?q w) = Inl a \<longrightarrow> (\<exists>c e. a = Raised e \<and> (c, Some e) \<in> set ?t)"
        using bw Some by (auto simp: lib_def)
      ultimately show ?thesis by blast
    qed
  qed
  then show ?thesis unfolding with_open_def by (intro tidy_seq tidy_lib)
qed

lemma tidy_heatmap_block: "tidy (heatmap_block env nd dir)"
  by (auto simp: heatmap_block_def Let_def)

lemma tidy_pairplot_block: "tidy (pairplot_block env nd dir)"
  by (auto simp: pairplot_block_def Let_def)

lemma tidy_visualize_body: "tidy (visualize_body env data dir)"
  by (auto simp: visualize_body_def Let_def tidy_heatmap_block tidy_pairplot_block)

lemma tidy_report_body: "tidy (report_body env data dir)"
  by (auto simp: report_body_def report_writes_def Let_def)

lemma tidy_analyze_data: "tidy (analyze_data env data)"
  by (auto simp: analyze_data_def)

lemma tidy_calls:
  assumes "tidy p"
  shows "trace (snd (p w)) = trace w @ calls_since w (snd (p w))"
    and "clean (calls_since w (snd (p w))) \<longleftrightarrow> (\<exists>x. fst (p w) = Inr x)"
    and "fst (p w) \<noteq> Inl SystemExit"
    and "fst (p w) = Inl a \<Longrightarrow>
           \<exists>c e. a = Raised e \<and> (c, Some e) \<in> set (calls_since w (snd (p w)))"
proof -
  obtain t where t: "trace (snd (p w)) = trace w @ t"
    "\<And>x. fst (p w) = Inr x \<Longrightarrow> clean t"
    "\<And>a. fst (p w) = Inl a \<Longrightarrow> \<exists>c e. a = Raised e \<and> (c, Some e) \<in> set t"
    using tidyE [OF assms, of w] by metis
  have c: "calls_since w (snd (p w)) = t" using t(1) by (simp add: calls_since_def)
  show "trace (snd (p w)) = trace w @ calls_since w (snd (p w))" using t c by simp
  show "clean (calls_since w (snd (p w))) \<longleftrightarrow> (\<exists>x. fst (p w) = Inr x)"
  proof (cases "fst (p w)")
    case (Inl a)
    then show ?thesis using t(3) [OF Inl] c raised_not_clean by auto
  next
    case (Inr x)
    then show ?thesis using t(2) c by simp
  qed
  show "fst (p w) \<noteq> Inl SystemExit" using t(3) by fastforce
  show "fst (p w) = Inl a \<Longrightarrow>
           \<exists>c e. a = Raised e \<and> (c, Some e) \<in> set (calls_since w (snd (p w)))"
    using t(3) c by simp
qed

text \<open>A \<^verbatim>\<open>try\<close> block whose handler only prints.\<close>

lemma try_say:
  assumes "tidy body"
  shows "fst (try_except body (\<lambda>e. say (m e)) w) = Inr ()"
    and "trace (snd (try_except body (\<lambda>e. say (m e)) w)) = trace (snd (body w))"
    and "files (snd (try_except body (\<lambda>e. say (m e)) w)) = files (snd (body w))"
    and "dirs (snd (try_except body (\<lambda>e. say (m e)) w)) = dirs (snd (body w))"
    and "figs (snd (try_except body (\<lambda>e. say (m e)) w)) = figs (snd (body w))"
    and "stdout (snd (try_except body (\<lambda>e. say (m e)) w)) =
          (case fst (body w) of Inl (Raised e) \<Rightarrow> stdout (snd (body w)) @ [m e] | _ \<Rightarrow> stdout (snd (body w)))"
  using tidy_calls(3) [OF assms, of w]
  by (auto simp: try_except_def say_def split: prod.splits sum.splits abort.splits)

lemma outcome_ReadCsv [simp]: "outcome env (ReadCsv p enc) w = raises env (trace w) (ReadCsv p enc)"
  by (simp add: outcome_def split: option.splits)

lemmas load_defs = load_data_def read_csv_def seq_def ret_def say_def exit_py_def lib_def


lemma process_datasets_append:
  "process_datasets env out (xs @ ys) w =
     (case process_datasets env out xs w of
        (Inl a, w1) \<Rightarrow> (Inl a, w1)
      | (Inr u, w1) \<Rightarrow> process_datasets env out ys w1)"
  by (induction xs arbitrary: w) (auto split: prod.splits sum.splits)


lemma main_loop:
  "aiproxy_token env = Some tok \<Longrightarrow> tok \<noteq> [] \<Longrightarrow>
   lib env (Chdir (script_dir env)) w = (Inr (), wa) \<Longrightarrow>
   lib env (Makedirs ''results'' True) wa = (Inr (), wb) \<Longrightarrow>
   main env w = process_datasets env ''results'' datasets wb"
  by (simp add: main_def seq_def)

subsection \<open>Postconditions, rule by rule\<close>

lemma post_seq:
  "post (seq p f) w Q =
     post p w (\<lambda>r w1. case r of Inl a \<Rightarrow> Q (Inl a) w1 | Inr x \<Rightarrow> post (f x) w1 Q)"
  by (simp add: post_def seq_def split: prod.splits sum.splits)

lemma post_lib:
  "post (lib env c) w Q =
     (case outcome env c w of
        Some e \<Rightarrow> Q (Inl (Raised e)) (w\<lparr>trace := trace w @ [(c, Some e)]\<rparr>)
      | None \<Rightarrow> Q (Inr ()) (effect env c (w\<lparr>trace := trace w @ [(c, None)]\<rparr>)))"
  by (simp add: post_def lib_def split: option.splits)

lemma post_say: "post (say s) w Q = Q (Inr ()) (w\<lparr>stdout := stdout w @ [s]\<rparr>)"
  by (simp add: post_def say_def)

lemma post_ret: "post (ret x) w Q = Q (Inr x) w"
  by (simp add: post_def ret_def)

lemma post_try:
  "post (try_except body handler) w Q =
     post body w (\<lambda>r w1. case r of Inl (Raised e) \<Rightarrow> post (handler e) w1 Q | _ \<Rightarrow> Q r w1)"
  by (simp add: post_def try_except_def split: prod.splits sum.splits abort.splits)

lemma outcome_plain: "state_error c w = None \<Longrightarrow> outcome env c w = raises env (trace w) c"
  by (simp add: outcome_def split: option.splits)

lemmas post_simps = post_seq post_lib post_say post_ret post_try outcome_plain

lemmas visualize_defs = visualize_data_def visualize_body_def heatmap_block_def pairplot_block_def Let_def

lemma empty_numeric_subset: "is_empty (numeric_subset data) \<Longrightarrow> is_empty (select_dtypes data)"
  by (auto simp: is_empty_def numeric_subset_def select_dtypes_def filter_empty_conv)

text \<open>Evaluating a run on concrete inputs.\<close>

lemma parent_literals:
  "parent ''results/goodreads/correlation_heatmap.png'' = ''results/goodreads''"
  "parent ''results/goodreads/pairplot.png'' = ''results/goodreads''"
  "parent ''results/goodreads/README.md'' = ''results/goodreads''"
  "parent ''results/media/correlation_heatmap.png'' = ''results/media''"
  "parent ''results/media/pairplot.png'' = ''results/media''"
  "parent ''results/media/README.md'' = ''results/media''"
  by (simp_all add: parent.simps)

lemma path_prefixes_literals:
  "path_prefixes ''results'' = [''results'']"
  "path_prefixes ''results/goodreads'' = [''results'', ''results/goodreads'']"
  "path_prefixes ''results/media'' = [''results'', ''results/media'']"
  by (simp_all add: path_prefixes_def)

lemmas run_defs = seq_def ret_def say_def lib_def outcome_def try_except_def exit_py_def
  with_open_def Let_def parent_literals path_prefixes_literals

subsection \<open>The stages of one entry\<close>

lemma try_say_logged:
  assumes "tidy body"
    and "\<not> clean (calls_since w (snd (try_except body (\<lambda>e. say (m e)) w)))"
  shows "\<exists>c e. (c, Some e) \<in> set (calls_since w (snd (try_except body (\<lambda>e. say (m e)) w)))
           \<and> last (stdout (snd (try_except body (\<lambda>e. say (m e)) w))) = m e"
proof -
  have eq: "calls_since w (snd (try_except body (\<lambda>e. say (m e)) w)) = calls_since w (snd (body w))"
    by (simp add: calls_since_def try_say(2) [OF assms(1)])
  then have "\<not> (\<exists>x. fst (body w) = Inr x)"
    using assms(2) tidy_calls(2) [OF assms(1), of w] by simp
  then obtain a where a: "fst (body w) = Inl a" by (cases "fst (body w)") auto
  then obtain c e where ce: "a = Raised e" "(c, Some e) \<in> set (calls_since w (snd (body w)))"
    using tidy_calls(4) [OF assms(1) a] by blast
  have "last (stdout (snd (try_except body (\<lambda>e. say (m e)) w))) = m e"
    using a ce(1) by (simp add: try_say(6) [OF assms(1)])
  then show ?thesis using ce(2) eq by auto
qed

lemma visualize_data_returns: "fst (visualize_data env data d w) = Inr ()"
  unfolding visualize_data_def by (rule try_say(1) [OF tidy_visualize_body])

lemma report_returns: "fst (generate_markdown_report env data d w) = Inr ()"
  unfolding generate_markdown_report_def by (rule try_say(1) [OF tidy_report_body])

lemma visualize_data_trace:
  "trace (snd (visualize_data env data d w)) =
     trace w @ calls_since w (snd (visualize_data env data d w))"
  unfolding visualize_data_def
  using tidy_calls(1) [OF tidy_visualize_body, of env data d w]
  by (simp add: try_say(2) [OF tidy_visualize_body] calls_since_def)

lemma report_trace:
  "trace (snd (generate_markdown_report env data d w)) =
     trace w @ calls_since w (snd (generate_markdown_report env data d w))"
  unfolding generate_markdown_report_def
  using tidy_calls(1) [OF tidy_report_body, of env data d w]
  by (simp add: try_say(2) [OF tidy_report_body] calls_since_def)

lemma process_dataset_stages:
  assumes "load_data env p (snd (say (''\<newline>Processing dataset: '' @ name) v)) = (Inr data, v1)"
    and "lib env (Makedirs (path_join out name) True) v1 = (Inr (), v2)"
    and "analyze_data env data v2 = (Inr (), v3)"
  shows "process_dataset env out name p v =
           generate_markdown_report env data (path_join out name)
             (snd (visualize_data env data (path_join out name) v3))"
proof -
  obtain r wv where v: "visualize_data env data (path_join out name) v3 = (r, wv)"
    by (cases "visualize_data env data (path_join out name) v3")
  then have "r = Inr ()"
    using visualize_data_returns [of env data "path_join out name" v3] by simp
  then show ?thesis
    using assms v by (simp add: process_dataset_def seq_def say_def Let_def)
qed

lemmas report_defs = generate_markdown_report_def report_body_def report_writes_def Let_def

lemmas analyze_defs = analyze_data_def

lemmas main_defs = main_def datasets_def process_dataset_def load_data_def read_csv_def

lemma load_data_trace:
  "trace (snd (load_data env p w)) =
     trace w @ (ReadCsv p UTF8, raises env (trace w) (ReadCsv p UTF8)) #
       (if is_decode_error (raises env (trace w) (ReadCsv p UTF8))
        then [(ReadCsv p ISO_8859_1,
               raises env (trace w @ [(ReadCsv p UTF8, raises env (trace w) (ReadCsv p UTF8))])
                 (ReadCsv p ISO_8859_1))]
        else [])"
  by (auto simp: load_defs is_decode_error_def
      split: option.splits exc_kind.splits prod.splits sum.splits abort.splits)

lemma load_data_frame:
  "files (snd (load_data env p w)) = files w"
  "dirs (snd (load_data env p w)) = dirs w"
  "figs (snd (load_data env p w)) = figs w"
  by (auto simp: load_defs
      split: option.splits exc_kind.splits prod.splits sum.splits abort.splits)

lemma lib_returns:
  assumes "lib env c w = (Inr (), w')"
  shows "w' = effect env c (w\<lparr>trace := trace w @ [(c, None)]\<rparr>)"
    and "outcome env c w = None"
    and "trace w' = trace w @ [(c, None)]"
  using assms by (auto simp: lib_def split: option.splits)

lemma makedirs_exist_ok:
  assumes "d \<notin> dom (files u)" and "raises env (trace u) (Makedirs d True) = None"
  shows "fst (lib env (Makedirs d True) u) = Inr ()"
    and "dirs (snd (lib env (Makedirs d True) u)) = dirs u \<union> set (path_prefixes d)"
    and "files (snd (lib env (Makedirs d True) u)) = files u"
    and "d \<in> set (path_prefixes d)"
  using assms by (auto simp: lib_def outcome_def path_prefixes_def)

subsection \<open>The correlation matrix\<close>










section \<open>The loader\<close>

text \<open>
  Claim C4. \<^verbatim>\<open>load_data\<close> first reads the file as UTF-8. It reads it a second time,
  as ISO-8859-1, exactly when the first attempt raised a decoding error, and makes no
  other call. When the second attempt returns, the loader returns the table parsed under
  ISO-8859-1 and has printed that this encoding was used.
\<close>

theorem load_data_fallback:
  fixes env :: env and w :: world and p :: string
  defines "r1 \<equiv> raises env (trace w) (ReadCsv p UTF8)"
  defines "r2 \<equiv> raises env (trace w @ [(ReadCsv p UTF8, r1)]) (ReadCsv p ISO_8859_1)"
  shows "trace (snd (load_data env p w)) =
           trace w @ (ReadCsv p UTF8, r1) #
             (if is_decode_error r1 then [(ReadCsv p ISO_8859_1, r2)] else [])
         \<and> (is_decode_error r1 \<and> r2 = None \<longrightarrow>
              fst (load_data env p w) = Inr (csv_table env p ISO_8859_1)
              \<and> stdout (snd (load_data env p w)) =
                  stdout w @ [''Error: File encoding not supported. Trying 'ISO-8859-1'.'',
                    ''Data loaded successfully from '' @ p @ '' with 'ISO-8859-1' encoding.''])"
  unfolding r1_def r2_def
  by (auto simp: load_defs is_decode_error_def
      split: option.splits exc_kind.splits prod.splits sum.splits abort.splits)

theorem load_data_fallback_witness:
  "is_decode_error (raises latin1_env (trace w0) (ReadCsv ''media.csv'' UTF8))
   \<and> raises latin1_env
        (trace w0 @ [(ReadCsv ''media.csv'' UTF8,
                      raises latin1_env (trace w0) (ReadCsv ''media.csv'' UTF8))])
        (ReadCsv ''media.csv'' ISO_8859_1) = None
   \<and> trace (snd (load_data latin1_env ''media.csv'' w0)) =
        [(ReadCsv ''media.csv'' UTF8, Some (Exc UnicodeDecodeError ''invalid start byte'')),
         (ReadCsv ''media.csv'' ISO_8859_1, None)]
   \<and> fst (load_data latin1_env ''media.csv'' w0) = Inr sample_data
   \<and> stdout (snd (load_data latin1_env ''media.csv'' w0)) =
        [''Error: File encoding not supported. Trying 'ISO-8859-1'.'',
         ''Data loaded successfully from media.csv with 'ISO-8859-1' encoding.'']"
  using load_data_fallback [where env = latin1_env and w = w0 and p = "''media.csv''"]
  by (simp add: latin1_env_def quiet_env_def w0_def is_decode_error_def)

text \<open>
  Claim C3. When the UTF-8 attempt raises anything but a decoding error (the file is not
  found, it has nothing to parse, or any other exception), or when it raises a decoding
  error and the ISO-8859-1 attempt raises as well, \<^verbatim>\<open>load_data\<close> exits the process.
  In the loop of \<^verbatim>\<open>main\<close> the exit ends the run at that entry: the result is the exit
  and the final world is the one the loader left, whatever entries remain, so the calls
  made since the previous entries are the loader's reads of this one file only.
\<close>

theorem load_failure_is_fatal:
  fixes env :: env and w :: world and p :: string
  defines "r1 \<equiv> raises env (trace w) (ReadCsv p UTF8)"
  defines "r2 \<equiv> raises env (trace w @ [(ReadCsv p UTF8, r1)]) (ReadCsv p ISO_8859_1)"
  defines "w' \<equiv> snd (load_data env p w)"
  shows "((r1 \<noteq> None \<and> \<not> is_decode_error r1) \<or> (is_decode_error r1 \<and> r2 \<noteq> None) \<longrightarrow>
            fst (load_data env p w) = Inl SystemExit)
         \<and> (process_datasets env out before v = (Inr (), u)
            \<and> w = snd (say (''\<newline>Processing dataset: '' @ name) u)
            \<and> fst (load_data env p w) = Inl SystemExit \<longrightarrow>
              process_datasets env out (before @ (name, p) # rest) v = (Inl SystemExit, w')
              \<and> calls_since u w' =
                  (ReadCsv p UTF8, r1) #
                    (if is_decode_error r1 then [(ReadCsv p ISO_8859_1, r2)] else []))"
proof -
  have a: "(r1 \<noteq> None \<and> \<not> is_decode_error r1) \<or> (is_decode_error r1 \<and> r2 \<noteq> None) \<longrightarrow>
            fst (load_data env p w) = Inl SystemExit"
    unfolding r1_def r2_def
    by (auto simp: load_defs is_decode_error_def
        split: option.splits exc_kind.splits prod.splits sum.splits abort.splits)
  have t: "trace w' = trace w @ (ReadCsv p UTF8, r1) #
             (if is_decode_error r1 then [(ReadCsv p ISO_8859_1, r2)] else [])"
    unfolding r1_def r2_def w'_def
    by (auto simp: load_defs is_decode_error_def
        split: option.splits exc_kind.splits prod.splits sum.splits abort.splits)
  have b: "process_datasets env out (before @ (name, p) # rest) v = (Inl SystemExit, w')
           \<and> calls_since u w' =
                  (ReadCsv p UTF8, r1) #
                    (if is_decode_error r1 then [(ReadCsv p ISO_8859_1, r2)] else [])"
    if h: "process_datasets env out before v = (Inr (), u)"
      "w = snd (say (''\<newline>Processing dataset: '' @ name) u)"
      "fst (load_data env p w) = Inl SystemExit"
  proof -
    have "load_data env p w = (Inl SystemExit, w')"
      using h(3) by (simp add: w'_def prod_eq_iff)
    then have "process_dataset env out name p u = (Inl SystemExit, w')"
      using h(2) by (simp add: process_dataset_def seq_def say_def)
    then have "process_datasets env out (before @ (name, p) # rest) v = (Inl SystemExit, w')"
      using h(1) by (simp add: process_datasets_append)
    moreover have "trace w = trace u" using h(2) by (simp add: say_def)
    ultimately show ?thesis using t by (simp add: calls_since_def)
  qed
  show ?thesis using a b by blast
qed

theorem load_failure_is_fatal_witness:
  "raises missing_env [] (ReadCsv ''C:/Users/Rohit/happiness.csv'' UTF8) \<noteq> None
   \<and> \<not> is_decode_error (raises missing_env [] (ReadCsv ''C:/Users/Rohit/happiness.csv'' UTF8))
   \<and> process_datasets missing_env ''results'' [] w0 = (Inr (), w0)
   \<and> fst (load_data missing_env ''C:/Users/Rohit/happiness.csv''
            (snd (say (''\<newline>Processing dataset: '' @ ''happiness'') w0))) = Inl SystemExit
   \<and> fst (process_datasets missing_env ''results''
            ([] @ (''happiness'', ''C:/Users/Rohit/happiness.csv'') #
               [(''media'', ''C:/Users/Rohit/media.csv'')]) w0) = Inl SystemExit
   \<and> trace (snd (process_datasets missing_env ''results''
            ([] @ (''happiness'', ''C:/Users/Rohit/happiness.csv'') #
               [(''media'', ''C:/Users/Rohit/media.csv'')]) w0)) =
       [(ReadCsv ''C:/Users/Rohit/happiness.csv'' UTF8,
         Some (Exc FileNotFoundError ''No such file or directory''))]"
  using load_failure_is_fatal
    [where env = missing_env and p = "''C:/Users/Rohit/happiness.csv''"
       and w = "snd (say (''\<newline>Processing dataset: '' @ ''happiness'') w0)"
       and out = "''results''" and before = "[]" and v = w0 and u = w0
       and name = "''happiness''" and rest = "[(''media'', ''C:/Users/Rohit/media.csv'')]"]
  by (simp add: missing_env_def quiet_env_def w0_def is_decode_error_def say_def
      calls_since_def load_defs)

section \<open>The order of the stages\<close>

text \<open>
  Claim C2, as stated, fails: the loop body calls \<^verbatim>\<open>load_data\<close> before it creates the
  directory of the entry. In a run in which nothing raises, the first library call made
  for the entry is \<^verbatim>\<open>read_csv\<close> and the second is \<^verbatim>\<open>os.makedirs\<close>.
\<close>

theorem pipeline_order_counterexample:
  "map fst (take 2 (trace (snd (process_dataset quiet_env ''results'' ''goodreads''
      ''C:/Users/Rohit/goodreads.csv'' w0)))) =
     [ReadCsv ''C:/Users/Rohit/goodreads.csv'' UTF8, Makedirs ''results/goodreads'' True]"
  by (simp add: process_dataset_def load_data_def read_csv_def analyze_defs visualize_defs
      report_defs run_defs quiet_env_def w0_def path_join_def is_empty_def select_dtypes_def
      sample_data_def)

text \<open>
  Claim C2, amended. For every entry the loop body first invokes the loader; when the
  table is loaded it creates the directory of the entry with \<^verbatim>\<open>exist_ok=True\<close>, and
  when that and the analyzer return, the calls made for the entry are, in this order:
  the loader's reads of the file, the \<^verbatim>\<open>makedirs\<close>, the calls of the analyzer, those of
  the visualizer and those of the reporter. Creating the directory does not fail because
  it exists: unless the path is a file or the system call itself raises, \<^verbatim>\<open>makedirs\<close>
  returns, the directory exists afterwards and no directory or file is lost. The loop
  takes the entries in the order of the mapping: a batch \<open>xs @ ys\<close> is processed as
  \<open>xs\<close>, then \<open>ys\<close> from the world \<open>xs\<close> left.
\<close>

theorem pipeline_order:
  fixes env out name p v
  defines "d \<equiv> path_join out name"
  shows "(load_data env p (snd (say (''\<newline>Processing dataset: '' @ name) v)) = (Inr data, v1)
          \<and> lib env (Makedirs d True) v1 = (Inr (), v2)
          \<and> analyze_data env data v2 = (Inr (), v3)
          \<and> v4 = snd (visualize_data env data d v3)
          \<and> v5 = snd (generate_markdown_report env data d v4) \<longrightarrow>
            process_dataset env out name p v = (Inr (), v5)
            \<and> trace v5 = trace v @ calls_since v v1 @ [(Makedirs d True, None)]
                  @ calls_since v2 v3 @ calls_since v3 v4 @ calls_since v4 v5
            \<and> calls_since v v1 \<noteq> []
            \<and> list_all (\<lambda>x. fst x = ReadCsv p UTF8 \<or> fst x = ReadCsv p ISO_8859_1)
                (calls_since v v1))
       \<and> (d \<notin> dom (files u) \<and> raises env (trace u) (Makedirs d True) = None \<longrightarrow>
            fst (lib env (Makedirs d True) u) = Inr ()
            \<and> d \<in> dirs (snd (lib env (Makedirs d True) u))
            \<and> dirs u \<subseteq> dirs (snd (lib env (Makedirs d True) u))
            \<and> files (snd (lib env (Makedirs d True) u)) = files u)
       \<and> process_datasets env out (xs @ ys) v =
           (case process_datasets env out xs v of
              (Inl a, u') \<Rightarrow> (Inl a, u')
            | (Inr r, u') \<Rightarrow> process_datasets env out ys u')"
proof -
  have a: "process_dataset env out name p v = (Inr (), v5)
            \<and> trace v5 = trace v @ calls_since v v1 @ [(Makedirs d True, None)]
                  @ calls_since v2 v3 @ calls_since v3 v4 @ calls_since v4 v5
            \<and> calls_since v v1 \<noteq> []
            \<and> list_all (\<lambda>x. fst x = ReadCsv p UTF8 \<or> fst x = ReadCsv p ISO_8859_1)
                (calls_since v v1)"
    if h: "load_data env p (snd (say (''\<newline>Processing dataset: '' @ name) v)) = (Inr data, v1)"
      "lib env (Makedirs d True) v1 = (Inr (), v2)"
      "analyze_data env data v2 = (Inr (), v3)"
      "v4 = snd (visualize_data env data d v3)"
      "v5 = snd (generate_markdown_report env data d v4)"
  proof -
    let ?v0 = "snd (say (''\<newline>Processing dataset: '' @ name) v)"
    have t0: "trace ?v0 = trace v" by (simp add: say_def)
    have pd: "process_dataset env out name p v = generate_markdown_report env data d v4"
      using process_dataset_stages [of env p name v data v1 out v2 v3] h by (simp add: d_def)
    have "fst (generate_markdown_report env data d v4) = Inr ()" by (rule report_returns)
    then have r: "process_dataset env out name p v = (Inr (), v5)"
      using pd h(5) by (simp add: prod_eq_iff)
    have v1: "v1 = snd (load_data env p ?v0)" using h(1) by simp
    have t1: "trace v1 = trace v @ calls_since v v1"
      unfolding v1 using load_data_trace [of env p ?v0] t0 by (simp add: calls_since_def)
    have l1: "calls_since v v1 \<noteq> []
         \<and> list_all (\<lambda>x. fst x = ReadCsv p UTF8 \<or> fst x = ReadCsv p ISO_8859_1) (calls_since v v1)"
      unfolding v1 using load_data_trace [of env p ?v0] t0 by (simp add: calls_since_def)
    have t2: "trace v2 = trace v1 @ [(Makedirs d True, None)]"
      using lib_returns(3) [OF h(2)] .
    have t3: "trace v3 = trace v2 @ calls_since v2 v3"
      using tidy_calls(1) [OF tidy_analyze_data, of env data v2] h(3) by simp
    have t4: "trace v4 = trace v3 @ calls_since v3 v4"
      unfolding h(4) by (rule visualize_data_trace)
    have t5: "trace v5 = trace v4 @ calls_since v4 v5"
      unfolding h(5) by (rule report_trace)
    have "trace v5 = trace v @ calls_since v v1 @ [(Makedirs d True, None)]
                  @ calls_since v2 v3 @ calls_since v3 v4 @ calls_since v4 v5"
      using t1 t2 t3 t4 t5 by simp
    then show ?thesis using r l1 by simp
  qed
  have b: "fst (lib env (Makedirs d True) u) = Inr ()
            \<and> d \<in> dirs (snd (lib env (Makedirs d True) u))
            \<and> dirs u \<subseteq> dirs (snd (lib env (Makedirs d True) u))
            \<and> files (snd (lib env (Makedirs d True) u)) = files u"
    if "d \<notin> dom (files u)" "raises env (trace u) (Makedirs d True) = None"
    using makedirs_exist_ok [OF that] by auto
  show ?thesis using a b process_datasets_append [of env out xs ys v] by blast
qed

theorem pipeline_order_witness:
  "fst (process_dataset quiet_env ''results'' ''goodreads'' ''C:/Users/Rohit/goodreads.csv'' w0) = Inr ()
   \<and> map fst (take 17 (trace (snd (process_dataset quiet_env ''results'' ''goodreads''
        ''C:/Users/Rohit/goodreads.csv'' w0)))) =
       [ReadCsv ''C:/Users/Rohit/goodreads.csv'' UTF8, Makedirs ''results/goodreads'' True,
        Info sample_data, Describe sample_data, Isnull sample_data, SumNulls sample_data,
        SnsSet, SelectDtypes sample_data, PltFigure, Corr (select_dtypes sample_data),
        SnsHeatmap (CorrOf (select_dtypes sample_data)),
        Savefig ''results/goodreads/correlation_heatmap.png'', PltClose,
        SnsPairplot (select_dtypes sample_data), Savefig ''results/goodreads/pairplot.png'',
        PltClose, OpenW ''results/goodreads/README.md'']
   \<and> ''results/goodreads'' \<in> dirs rerun_world
   \<and> fst (lib quiet_env (Makedirs ''results/goodreads'' True) rerun_world) = Inr ()
   \<and> dirs (snd (lib quiet_env (Makedirs ''results/goodreads'' True) rerun_world)) = dirs rerun_world"
proof -
  define v1 where "v1 = snd (load_data quiet_env ''C:/Users/Rohit/goodreads.csv''
                  (snd (say (''\<newline>Processing dataset: '' @ ''goodreads'') w0)))"
  define v2 where "v2 = snd (lib quiet_env (Makedirs ''results/goodreads'' True) v1)"
  define v3 where "v3 = snd (analyze_data quiet_env sample_data v2)"
  define v4 where "v4 = snd (visualize_data quiet_env sample_data ''results/goodreads'' v3)"
  define v5 where "v5 = snd (generate_markdown_report quiet_env sample_data ''results/goodreads'' v4)"
  have l: "load_data quiet_env ''C:/Users/Rohit/goodreads.csv''
             (snd (say (''\<newline>Processing dataset: '' @ ''goodreads'') w0)) = (Inr sample_data, v1)"
    by (simp add: v1_def prod_eq_iff load_defs quiet_env_def w0_def)
  have f1: "files v1 = Map.empty"
    by (simp add: v1_def load_defs quiet_env_def w0_def)
  have m: "lib quiet_env (Makedirs ''results/goodreads'' True) v1 = (Inr (), v2)"
    using f1 by (simp add: v2_def prod_eq_iff lib_def outcome_def quiet_env_def)
  have a: "analyze_data quiet_env sample_data v2 = (Inr (), v3)"
    by (simp add: v3_def prod_eq_iff analyze_defs run_defs quiet_env_def)
  have j: "path_join ''results'' ''goodreads'' = ''results/goodreads''"
    by (simp add: path_join_def)
  have t: "map fst (take 17 (trace (snd (process_dataset quiet_env ''results'' ''goodreads''
        ''C:/Users/Rohit/goodreads.csv'' w0)))) =
       [ReadCsv ''C:/Users/Rohit/goodreads.csv'' UTF8, Makedirs ''results/goodreads'' True,
        Info sample_data, Describe sample_data, Isnull sample_data, SumNulls sample_data,
        SnsSet, SelectDtypes sample_data, PltFigure, Corr (select_dtypes sample_data),
        SnsHeatmap (CorrOf (select_dtypes sample_data)),
        Savefig ''results/goodreads/correlation_heatmap.png'', PltClose,
        SnsPairplot (select_dtypes sample_data), Savefig ''results/goodreads/pairplot.png'',
        PltClose, OpenW ''results/goodreads/README.md'']"
    by (simp add: process_dataset_def load_data_def read_csv_def analyze_defs visualize_defs
      report_defs run_defs quiet_env_def w0_def path_join_def is_empty_def select_dtypes_def
      sample_data_def)
  have r1: "''results/goodreads'' \<notin> dom (files rerun_world)"
    by (simp add: rerun_world_def w0_def)
  have r2: "raises quiet_env (trace rerun_world) (Makedirs ''results/goodreads'' True) = None"
    by (simp add: quiet_env_def)
  have r3: "''results/goodreads'' \<in> dirs rerun_world"
    by (simp add: rerun_world_def w0_def)
  have r4: "dirs (snd (lib quiet_env (Makedirs ''results/goodreads'' True) rerun_world)) = dirs rerun_world"
    by (auto simp: lib_def outcome_def quiet_env_def rerun_world_def w0_def path_prefixes_def)
  show ?thesis
    using l m a t r1 r2 r3 r4 v4_def v5_def
      pipeline_order [of quiet_env "''C:/Users/Rohit/goodreads.csv''" "''goodreads''" w0
        sample_data v1 "''results''" v2 v3 v4 v5 rerun_world "[]" "[]"]
    by (simp add: j)
qed

section \<open>Failures inside a stage\<close>

text \<open>
  Claim C1, as stated, fails for the analyzer: no statement of \<^verbatim>\<open>analyze_data\<close> is in
  a \<^verbatim>\<open>try\<close>, and \<^verbatim>\<open>main\<close> calls it outside of one. When \<^verbatim>\<open>data.info()\<close> raises for
  the first table, the exception leaves \<^verbatim>\<open>main\<close>: neither the visualizer nor the reporter
  runs for that table, and the other two entries are never read.
\<close>

theorem analyzer_failure_counterexample:
  "fst (main info_env w0) = Inl (Raised (Exc OtherException ''boom''))
   \<and> map fst (trace (snd (main info_env w0))) =
       [Chdir ''/app'', Makedirs ''results'' True,
        ReadCsv ''C:/Users/Rohit/goodreads.csv'' UTF8,
        Makedirs ''results/goodreads'' True, Info sample_data]"
  by (simp add: main_defs analyze_defs run_defs info_env_def quiet_env_def w0_def path_join_def)

text \<open>
  Claim C1, amended to the two stages that have a handler. \<^verbatim>\<open>visualize_data\<close> and
  \<^verbatim>\<open>generate_markdown_report\<close> always return normally; when a library call inside one
  of them raised, the last line the stage printed is its error message with the text of
  an exception raised there. In the loop, once the table is loaded, its directory made
  and the analyzer has returned, the reporter runs on the world the visualizer left and
  the loop goes on with the remaining entries, whatever was raised in these two stages.
\<close>

theorem stage_failures_contained:
  fixes env data d w
  defines "wv \<equiv> snd (visualize_data env data d w)"
  defines "wr \<equiv> snd (generate_markdown_report env data d w)"
  shows "fst (visualize_data env data d w) = Inr ()
       \<and> fst (generate_markdown_report env data d w) = Inr ()
       \<and> (\<not> clean (calls_since w wv) \<longrightarrow>
            (\<exists>c e. (c, Some e) \<in> set (calls_since w wv)
               \<and> last (stdout wv) = ''Error creating visualizations: '' @ message e))
       \<and> (\<not> clean (calls_since w wr) \<longrightarrow>
            (\<exists>c e. (c, Some e) \<in> set (calls_since w wr)
               \<and> last (stdout wr) = ''Error generating Markdown report: '' @ message e))
       \<and> (load_data env p (snd (say (''\<newline>Processing dataset: '' @ name) v)) = (Inr data, v1)
          \<and> lib env (Makedirs d True) v1 = (Inr (), v2)
          \<and> analyze_data env data v2 = (Inr (), v3)
          \<and> d = path_join out name \<longrightarrow>
            process_datasets env out ((name, p) # rest) v =
              process_datasets env out rest
                (snd (generate_markdown_report env data d (snd (visualize_data env data d v3)))))"
proof -
  have a: "\<not> clean (calls_since w wv) \<longrightarrow>
            (\<exists>c e. (c, Some e) \<in> set (calls_since w wv)
               \<and> last (stdout wv) = ''Error creating visualizations: '' @ message e)"
    unfolding wv_def visualize_data_def
    by (rule impI)
      (rule try_say_logged [OF tidy_visualize_body,
         where m = "\<lambda>e. ''Error creating visualizations: '' @ message e"])
  have b: "\<not> clean (calls_since w wr) \<longrightarrow>
            (\<exists>c e. (c, Some e) \<in> set (calls_since w wr)
               \<and> last (stdout wr) = ''Error generating Markdown report: '' @ message e)"
    unfolding wr_def generate_markdown_report_def
    by (rule impI)
      (rule try_say_logged [OF tidy_report_body,
         where m = "\<lambda>e. ''Error generating Markdown report: '' @ message e"])
  have c: "process_datasets env out ((name, p) # rest) v =
              process_datasets env out rest
                (snd (generate_markdown_report env data d (snd (visualize_data env data d v3))))"
    if "load_data env p (snd (say (''\<newline>Processing dataset: '' @ name) v)) = (Inr data, v1)"
      "lib env (Makedirs d True) v1 = (Inr (), v2)"
      "analyze_data env data v2 = (Inr (), v3)" "d = path_join out name"
  proof -
    have pd: "process_dataset env out name p v =
           generate_markdown_report env data d (snd (visualize_data env data d v3))"
      using process_dataset_stages [of env p name v data v1 out v2 v3] that by simp
    obtain r u where
      g: "generate_markdown_report env data d (snd (visualize_data env data d v3)) = (r, u)"
      by (cases "generate_markdown_report env data d (snd (visualize_data env data d v3))")
    then have "r = Inr ()"
      using report_returns [of env data d "snd (visualize_data env data d v3)"] by simp
    then show ?thesis using pd g by simp
  qed
  show ?thesis
    using a b c visualize_data_returns report_returns by blast
qed

theorem stage_failures_contained_witness:
  "\<not> clean (calls_since w0 (snd (visualize_data faulty_env sample_data ''results/goodreads'' w0)))
   \<and> fst (visualize_data faulty_env sample_data ''results/goodreads'' w0) = Inr ()
   \<and> last (stdout (snd (visualize_data faulty_env sample_data ''results/goodreads'' w0))) =
       ''Error creating visualizations: zero-size array''
   \<and> \<not> clean (calls_since w0
         (snd (generate_markdown_report faulty_env sample_data ''results/goodreads'' w0)))
   \<and> fst (generate_markdown_report faulty_env sample_data ''results/goodreads'' w0) = Inr ()
   \<and> last (stdout (snd (generate_markdown_report faulty_env sample_data ''results/goodreads'' w0))) =
       ''Error generating Markdown report: Permission denied''
   \<and> process_datasets faulty_env ''results''
        ((''goodreads'', ''C:/Users/Rohit/goodreads.csv'') # tl datasets) w0 =
      process_datasets faulty_env ''results'' (tl datasets)
        (snd (generate_markdown_report faulty_env sample_data ''results/goodreads''
          (snd (visualize_data faulty_env sample_data ''results/goodreads''
            (snd (analyze_data faulty_env sample_data
              (snd (lib faulty_env (Makedirs ''results/goodreads'' True)
                (snd (load_data faulty_env ''C:/Users/Rohit/goodreads.csv''
                  (snd (say (''\<newline>Processing dataset: '' @ ''goodreads'') w0))))))))))))"
proof -
  define v1 where "v1 = snd (load_data faulty_env ''C:/Users/Rohit/goodreads.csv''
                  (snd (say (''\<newline>Processing dataset: '' @ ''goodreads'') w0)))"
  define v2 where "v2 = snd (lib faulty_env (Makedirs ''results/goodreads'' True) v1)"
  define v3 where "v3 = snd (analyze_data faulty_env sample_data v2)"
  have l: "load_data faulty_env ''C:/Users/Rohit/goodreads.csv''
             (snd (say (''\<newline>Processing dataset: '' @ ''goodreads'') w0)) = (Inr sample_data, v1)"
    by (simp add: v1_def prod_eq_iff load_defs faulty_env_def quiet_env_def w0_def)
  have f1: "files v1 = Map.empty"
    by (simp add: v1_def load_defs faulty_env_def quiet_env_def w0_def)
  have m: "lib faulty_env (Makedirs ''results/goodreads'' True) v1 = (Inr (), v2)"
    using f1 by (simp add: v2_def prod_eq_iff lib_def outcome_def faulty_env_def quiet_env_def)
  have a: "analyze_data faulty_env sample_data v2 = (Inr (), v3)"
    by (simp add: v3_def prod_eq_iff analyze_defs run_defs faulty_env_def quiet_env_def)
  have j: "''results/goodreads'' = path_join ''results'' ''goodreads''"
    by (simp add: path_join_def)
  have tv: "calls_since w0 (snd (visualize_data faulty_env sample_data ''results/goodreads'' w0)) =
      [(SnsSet, None), (SelectDtypes sample_data, None), (PltFigure, None),
       (Corr (select_dtypes sample_data), None),
       (SnsHeatmap (CorrOf (select_dtypes sample_data)), Some (Exc OtherException ''zero-size array''))]"
    by (simp add: visualize_defs run_defs calls_since_def faulty_env_def quiet_env_def w0_def
        is_empty_def select_dtypes_def sample_data_def)
  have tr: "calls_since w0 (snd (generate_markdown_report faulty_env sample_data ''results/goodreads'' w0)) =
      [(OpenW ''results/goodreads/README.md'', Some (Exc OtherException ''Permission denied''))]"
    by (simp add: report_defs run_defs calls_since_def faulty_env_def quiet_env_def w0_def
        path_join_def)
  have sv: "last (stdout (snd (visualize_data faulty_env sample_data ''results/goodreads'' w0))) =
       ''Error creating visualizations: zero-size array''"
    by (simp add: visualize_defs run_defs faulty_env_def quiet_env_def w0_def
        is_empty_def select_dtypes_def sample_data_def)
  have sr: "last (stdout (snd (generate_markdown_report faulty_env sample_data ''results/goodreads'' w0))) =
       ''Error generating Markdown report: Permission denied''"
    by (simp add: report_defs run_defs faulty_env_def quiet_env_def w0_def path_join_def)
  have cv: "\<not> clean (calls_since w0 (snd (visualize_data faulty_env sample_data ''results/goodreads'' w0)))"
    by (simp add: tv clean_def)
  have cr: "\<not> clean (calls_since w0
         (snd (generate_markdown_report faulty_env sample_data ''results/goodreads'' w0)))"
    by (simp add: tr clean_def)
  show ?thesis
    using cv cr sv sr l m a j
      stage_failures_contained [of faulty_env sample_data "''results/goodreads''" w0
        "''C:/Users/Rohit/goodreads.csv''" "''goodreads''" w0 v1 v2 v3 "''results''" "tl datasets"]
    unfolding v1_def [symmetric] v2_def [symmetric] v3_def [symmetric]
    by (simp add: v1_def [symmetric] v2_def [symmetric] v3_def [symmetric])
qed

section \<open>The visualizer\<close>

text \<open>
  Claim C5. When the NumericSubset of the table (its columns of floating-point or integer
  type) is empty, \<^verbatim>\<open>visualize_data\<close> returns normally, leaves every file as it was,
  and never calls \<^verbatim>\<open>savefig\<close>.
\<close>

theorem visualize_empty_numeric:
  assumes "is_empty (numeric_subset data)"
  shows "fst (visualize_data env data dir w) = Inr ()
       \<and> files (snd (visualize_data env data dir w)) = files w
       \<and> list_all (\<lambda>x. \<forall>p. fst x \<noteq> Savefig p) (calls_since w (snd (visualize_data env data dir w)))"
proof -
  have "post (visualize_data env data dir) w
          (\<lambda>r w'. r = Inr () \<and> files w' = files w
             \<and> list_all (\<lambda>x. \<forall>p. fst x \<noteq> Savefig p) (drop (length (trace w)) (trace w')))"
    using empty_numeric_subset [OF assms]
    by (simp add: visualize_defs post_simps split: option.split)
  then show ?thesis by (simp add: post_def calls_since_def)
qed

theorem visualize_empty_numeric_witness:
  "is_empty (numeric_subset text_data)
   \<and> fst (visualize_data quiet_env text_data ''results/media'' w0) = Inr ()
   \<and> files (snd (visualize_data quiet_env text_data ''results/media'' w0)) = files w0
   \<and> map fst (calls_since w0 (snd (visualize_data quiet_env text_data ''results/media'' w0))) =
       [SnsSet, SelectDtypes text_data]"
proof -
  have e: "is_empty (numeric_subset text_data)"
    by (simp add: is_empty_def numeric_subset_def text_data_def)
  have t: "map fst (calls_since w0 (snd (visualize_data quiet_env text_data ''results/media'' w0))) =
       [SnsSet, SelectDtypes text_data]"
    by (simp add: visualize_defs run_defs calls_since_def quiet_env_def w0_def
        is_empty_def select_dtypes_def text_data_def)
  show ?thesis
    using e t visualize_empty_numeric [OF e, of quiet_env "''results/media''" w0] by simp
qed




text \<open>
  Claim C9. In every call of \<^verbatim>\<open>visualize_data\<close>, each \<^verbatim>\<open>savefig\<close> that returned is
  followed at once by \<^verbatim>\<open>plt.close()\<close>, before the function returns; when no call raised,
  the open figures are the same after the call as before it. And whatever figures were
  left open when the call began, and whichever calls raise, an image the call writes shows
  one drawing only, made from the table of this call: nothing drawn for an earlier table
  gets into it.
\<close>

theorem visualizer_closes_figures:
  fixes env data dir w
  defines "w' \<equiv> snd (visualize_data env data dir w)"
  shows "closes_after_save (calls_since w w')
       \<and> (clean (calls_since w w') \<longrightarrow> figs w' = figs w)
       \<and> (\<forall>q. files w' q \<noteq> files w q \<longrightarrow>
             files w' q = Some (Image [Heatmap (CorrOf (select_dtypes data))])
           \<or> files w' q = Some (Image [Pairplot (select_dtypes data)]))"
proof -
  have "post (visualize_data env data dir) w
          (\<lambda>r w'. closes_after_save (drop (length (trace w)) (trace w'))
            \<and> (clean (drop (length (trace w)) (trace w')) \<longrightarrow> figs w' = figs w)
            \<and> (\<forall>q. files w' q \<noteq> files w q \<longrightarrow>
                files w' q = Some (Image [Heatmap (CorrOf (select_dtypes data))])
              \<or> files w' q = Some (Image [Pairplot (select_dtypes data)])))"
    by (simp add: visualize_defs post_simps clean_def draw_def current_figure_def is_saved_def
        split: option.split)
  then show ?thesis by (simp add: post_def calls_since_def w'_def)
qed

theorem visualizer_closes_figures_witness:
  "closes_after_save
     (calls_since stale_world (snd (visualize_data quiet_env sample_data ''results/media'' stale_world)))
   \<and> clean (calls_since stale_world
        (snd (visualize_data quiet_env sample_data ''results/media'' stale_world)))
   \<and> figs (snd (visualize_data quiet_env sample_data ''results/media'' stale_world)) =
       [[Heatmap (CorrOf text_data)]]
   \<and> files (snd (visualize_data quiet_env sample_data ''results/media'' stale_world))
         ''results/media/correlation_heatmap.png'' \<noteq>
       files stale_world ''results/media/correlation_heatmap.png''
   \<and> files (snd (visualize_data quiet_env sample_data ''results/media'' stale_world))
         ''results/media/correlation_heatmap.png'' =
       Some (Image [Heatmap (CorrOf (select_dtypes sample_data))])"
proof -
  have c: "clean (calls_since stale_world
        (snd (visualize_data quiet_env sample_data ''results/media'' stale_world)))"
    by (simp add: visualize_defs run_defs calls_since_def clean_def quiet_env_def w0_def media_world_def
        stale_world_def is_empty_def select_dtypes_def sample_data_def path_join_def)
  have f: "files (snd (visualize_data quiet_env sample_data ''results/media'' stale_world))
         ''results/media/correlation_heatmap.png'' =
       Some (Image [Heatmap (CorrOf (select_dtypes sample_data))])"
    by (simp add: visualize_defs run_defs quiet_env_def w0_def media_world_def draw_def current_figure_def
        stale_world_def is_empty_def select_dtypes_def sample_data_def path_join_def)
  have s: "files stale_world ''results/media/correlation_heatmap.png'' = None"
    by (simp add: stale_world_def media_world_def w0_def)
  have g: "figs stale_world = [[Heatmap (CorrOf text_data)]]"
    by (simp add: stale_world_def media_world_def w0_def)
  show ?thesis
    using c f s g
      visualizer_closes_figures [of stale_world quiet_env sample_data "''results/media''"]
    by simp
qed

end
